theory Spec2Isabelle
  imports Complex_Main "HOL-Library.Signed_Division" "HOL-Library.Multiset"
begin

section \<open>The fluids model of RealTimeParticles: \<^verbatim>\<open>src/physics/Fluids.cpp\<close>\<close>

text \<open>
  \<^verbatim>\<open>Fluids.cpp\<close> is the host side of a position based fluids simulation. It owns no
  numerical code: every function of the file is a sequence of calls to the OpenCL context
  (\<^verbatim>\<open>createKernel\<close>, \<^verbatim>\<open>setKernelArg\<close>, \<^verbatim>\<open>runKernel\<close>, ...) and to the radix sort. The
  embedding therefore has two layers.

  \<^item> The host layer is translated from the source: the members of the class as a record,
    each member function as a function from the record to the updated record and the
    list of calls it issues, in the order it issues them.
  \<^item> The device layer gives the calls a meaning on the buffers. The kernels
    (\<^verbatim>\<open>fluids.cl\<close>), the context and the radix sort are not part of \<^verbatim>\<open>Fluids.cpp\<close>; what
    the source fixes about them (which buffers a kernel is bound to) is taken from
    \<^verbatim>\<open>createKernels\<close>, and the rest is a parameter or follows the specification.
\<close>

subsection \<open>Names\<close>

text \<open>The \<^verbatim>\<open>KERNEL_*\<close> macros, lines 14 to 34. \<open>kernelName\<close> is the string of each macro.\<close>

datatype kernel =
    KERNEL_INFINITE_POS
  | KERNEL_RANDOM_POS
  | KERNEL_UPDATE_POS_BOUNCING
  | KERNEL_UPDATE_POS_CYCLIC
  | KERNEL_UPDATE_VEL
  | KERNEL_FLUSH_GRID_DETECTOR
  | KERNEL_FILL_GRID_DETECTOR
  | KERNEL_RESET_CAMERA_DIST
  | KERNEL_FILL_CAMERA_DIST
  | KERNEL_RESET_CELL_ID
  | KERNEL_FILL_CELL_ID
  | KERNEL_FLUSH_START_END_CELL
  | KERNEL_FILL_START_CELL
  | KERNEL_FILL_END_CELL
  | KERNEL_ADJUST_END_CELL
  | KERNEL_PREDICT_POS
  | KERNEL_DENSITY
  | KERNEL_CONSTRAINT_FACTOR
  | KERNEL_CONSTRAINT_CORRECTION
  | KERNEL_CORRECT_POS

fun kernelName :: "kernel \<Rightarrow> string" where
  "kernelName KERNEL_INFINITE_POS = ''infPosVerts''"
| "kernelName KERNEL_RANDOM_POS = ''randPosVerts''"
| "kernelName KERNEL_UPDATE_POS_BOUNCING = ''updatePosWithBouncingWalls''"
| "kernelName KERNEL_UPDATE_POS_CYCLIC = ''updatePosWithCyclicWalls''"
| "kernelName KERNEL_UPDATE_VEL = ''updateVel''"
| "kernelName KERNEL_FLUSH_GRID_DETECTOR = ''flushGridDetector''"
| "kernelName KERNEL_FILL_GRID_DETECTOR = ''fillGridDetector''"
| "kernelName KERNEL_RESET_CAMERA_DIST = ''resetCameraDist''"
| "kernelName KERNEL_FILL_CAMERA_DIST = ''fillCameraDist''"
| "kernelName KERNEL_RESET_CELL_ID = ''resetCellIDs''"
| "kernelName KERNEL_FILL_CELL_ID = ''fillCellIDs''"
| "kernelName KERNEL_FLUSH_START_END_CELL = ''flushStartEndCell''"
| "kernelName KERNEL_FILL_START_CELL = ''fillStartCell''"
| "kernelName KERNEL_FILL_END_CELL = ''fillEndCell''"
| "kernelName KERNEL_ADJUST_END_CELL = ''adjustEndCell''"
| "kernelName KERNEL_PREDICT_POS = ''predictPosition''"
| "kernelName KERNEL_DENSITY = ''computeFluidDensity''"
| "kernelName KERNEL_CONSTRAINT_FACTOR = ''computeConstraintFactor''"
| "kernelName KERNEL_CONSTRAINT_CORRECTION = ''computeConstraintCorrection''"
| "kernelName KERNEL_CORRECT_POS = ''correctPosition''"

text \<open>
  The buffers, by the names \<^verbatim>\<open>createBuffers\<close> and \<^verbatim>\<open>createKernels\<close> give them.
  \<^verbatim>\<open>p_density\<close> is bound to three kernels and created nowhere in the file.
\<close>

datatype buffer =
    u_cameraPos
  | p_pos
  | c_partDetector
  | p_predPos
  | p_corrPos
  | p_vel
  | p_cellID
  | p_cameraDist
  | c_startEndPartID
  | p_density

definition MAX_NB_JACOBI_ITERS :: int where
  "MAX_NB_JACOBI_ITERS = 3"

subsection \<open>The members of the class\<close>

text \<open>
  \<^verbatim>\<open>Dimension\<close> and \<^verbatim>\<open>Boundary\<close> are enumerations declared in a header that is not part
  of the file. The source names \<^verbatim>\<open>Dimension::dim2D\<close>, \<^verbatim>\<open>Boundary::CyclicWall\<close> and
  \<^verbatim>\<open>Boundary::BouncingWall\<close>; \<open>dimOther\<close> stands for every other dimension.

  Modelled from the spec: the values of \<^verbatim>\<open>Boundary\<close> beyond the two the source names. The
  specification speaks of "selecting the wrong/no variant" (4.5) and of an "invalid
  boundary mode" (7); \<open>InvalidBoundary\<close> is that selection, a value of the enumeration
  that is neither of the two.
\<close>

datatype Dimension = dim2D | dimOther

datatype Boundary = CyclicWall | BouncingWall | InvalidBoundary

text \<open>
  The members \<^verbatim>\<open>Fluids.cpp\<close> reads or writes. Those of the base class \<^verbatim>\<open>Model\<close> come
  first. Counts and sizes are natural numbers, \<^verbatim>\<open>float\<close> members are reals, \<open>m_time\<close>
  is a time point of \<^verbatim>\<open>clock\<close>, counted in periods of that clock.
\<close>

record fluids =
  m_init :: bool
  m_pause :: bool
  m_time :: int
  m_dimension :: Dimension
  m_boundary :: Boundary
  m_velocity :: real
  m_boxSize :: nat
  m_gridRes :: nat
  m_nbCells :: nat
  m_currNbParticles :: nat
  m_maxNbParticles :: nat
  m_scaleAlignment :: real
  m_scaleCohesion :: real
  m_scaleSeparation :: real
  m_activeAlignment :: bool
  m_activeSeparation :: bool
  m_activeCohesion :: bool
  m_simplifiedMode :: bool
  m_maxNbPartsInCell :: nat

subsection \<open>The calls a member function issues\<close>

text \<open>
  The values \<^verbatim>\<open>createProgram\<close> writes into the build options. The text of the option
  string (the two decimals of \<^verbatim>\<open>ABS_WALL_POS\<close>) is not modelled, the numbers are.
  \<open>EFFECT_RADIUS_SQUARED\<close> is \<open>None\<close> where the source divides by zero.
\<close>

record build_options =
  EFFECT_RADIUS_SQUARED :: "int option"
  ABS_WALL_POS :: real
  GRID_RES :: nat
  GRID_NUM_CELLS :: nat
  NUM_MAX_PARTS_IN_CELL :: nat

datatype cl_call =
    CreateProgram build_options
  | CreateGLBuffer buffer
  | CreateBuffer buffer nat
  | CreateKernel kernel "buffer option list"
  | SetKernelArg kernel nat real
  | AcquireGLBuffers "buffer list"
  | ReleaseGLBuffers "buffer list"
  | RunKernel kernel nat
  | RadixSort_sort buffer "buffer list"

subsection \<open>\<^verbatim>\<open>createProgram\<close>, \<^verbatim>\<open>createBuffers\<close>, \<^verbatim>\<open>createKernels\<close>\<close>

text \<open>
  Line 67: \<^verbatim>\<open>(int)(m_boxSize * m_boxSize / (m_gridRes * m_gridRes))\<close>. The declarations
  of \<^verbatim>\<open>m_boxSize\<close> and \<^verbatim>\<open>m_gridRes\<close> are in the header of \<^verbatim>\<open>Model\<close>; they are taken
  as unsigned integers of \<open>bits\<close> bits (64 for \<^verbatim>\<open>size_t\<close>), a parameter. The two products
  wrap around at \<open>2 ^ bits\<close>, the division is the integer division, and the cast to
  \<^verbatim>\<open>int\<close> keeps the low 32 bits as a two's complement number. Where the divisor is zero
  the division traps: the result is \<open>None\<close>.
\<close>

definition castToInt :: "nat \<Rightarrow> int" where
  "castToInt n =
     (let low = n mod 2 ^ 32 in if low < 2 ^ 31 then int low else int low - 2 ^ 32)"

definition effectRadiusSquared :: "nat \<Rightarrow> nat \<Rightarrow> nat \<Rightarrow> int option" where
  "effectRadiusSquared bits boxSize gridRes =
     (let boxSquared = boxSize * boxSize mod 2 ^ bits;
          gridSquared = gridRes * gridRes mod 2 ^ bits
      in if gridSquared = 0 then None
         else Some (castToInt (boxSquared div gridSquared)))"

definition clBuildOptions :: "nat \<Rightarrow> fluids \<Rightarrow> build_options" where
  "clBuildOptions bits s =
     \<lparr> EFFECT_RADIUS_SQUARED = effectRadiusSquared bits (m_boxSize s) (m_gridRes s),
       ABS_WALL_POS = real (m_boxSize s) / 2,
       GRID_RES = m_gridRes s,
       GRID_NUM_CELLS = m_nbCells s,
       NUM_MAX_PARTS_IN_CELL = m_maxNbPartsInCell s \<rparr>"

text \<open>
  \<^verbatim>\<open>createProgram\<close> computes the options and then creates the program. Where the
  division traps it creates nothing and does not return: the result is \<open>None\<close>.
\<close>

definition createProgram :: "nat \<Rightarrow> fluids \<Rightarrow> cl_call list option" where
  "createProgram bits s =
     (case EFFECT_RADIUS_SQUARED (clBuildOptions bits s) of
        None \<Rightarrow> None
      | Some r \<Rightarrow> Some [CreateProgram (clBuildOptions bits s)])"

text \<open>Sizes are in bytes: \<^verbatim>\<open>sizeof(float)\<close> and \<^verbatim>\<open>sizeof(unsigned int)\<close> are 4.\<close>

definition createBuffers :: "fluids \<Rightarrow> cl_call list" where
  "createBuffers s =
     [CreateGLBuffer u_cameraPos,
      CreateGLBuffer p_pos,
      CreateGLBuffer c_partDetector,
      CreateBuffer p_predPos (4 * m_maxNbParticles s * 4),
      CreateBuffer p_corrPos (4 * m_maxNbParticles s * 4),
      CreateBuffer p_vel (4 * m_maxNbParticles s * 4),
      CreateBuffer p_cellID (m_maxNbParticles s * 4),
      CreateBuffer p_cameraDist (m_maxNbParticles s * 4),
      CreateBuffer c_startEndPartID (2 * m_nbCells s * 4)]"

text \<open>
  The argument list each kernel is created with, lines 103 to 134. \<open>None\<close> is the empty
  name \<^verbatim>\<open>""\<close>: an argument that is not a buffer and is set by \<^verbatim>\<open>setKernelArg\<close>.
\<close>

fun kernelArgs :: "kernel \<Rightarrow> buffer option list" where
  "kernelArgs KERNEL_INFINITE_POS = [Some p_pos]"
| "kernelArgs KERNEL_RANDOM_POS = [Some p_pos, Some p_vel]"
| "kernelArgs KERNEL_FLUSH_GRID_DETECTOR = [Some c_partDetector]"
| "kernelArgs KERNEL_FILL_GRID_DETECTOR = [Some p_pos, Some c_partDetector]"
| "kernelArgs KERNEL_RESET_CAMERA_DIST = [Some p_cameraDist]"
| "kernelArgs KERNEL_FILL_CAMERA_DIST = [Some p_pos, Some u_cameraPos, Some p_cameraDist]"
| "kernelArgs KERNEL_RESET_CELL_ID = [Some p_cellID]"
| "kernelArgs KERNEL_FILL_CELL_ID = [Some p_predPos, Some p_cellID]"
| "kernelArgs KERNEL_FLUSH_START_END_CELL = [Some c_startEndPartID]"
| "kernelArgs KERNEL_FILL_START_CELL = [Some p_cellID, Some c_startEndPartID]"
| "kernelArgs KERNEL_FILL_END_CELL = [Some p_cellID, Some c_startEndPartID]"
| "kernelArgs KERNEL_ADJUST_END_CELL = [Some c_startEndPartID]"
| "kernelArgs KERNEL_PREDICT_POS = [Some p_pos, Some p_vel, None, Some p_predPos]"
| "kernelArgs KERNEL_DENSITY = [Some p_predPos, Some p_density]"
| "kernelArgs KERNEL_CONSTRAINT_FACTOR = [Some p_density, Some p_predPos, Some p_corrPos]"
| "kernelArgs KERNEL_CONSTRAINT_CORRECTION = [Some p_predPos, Some p_density, Some p_corrPos]"
| "kernelArgs KERNEL_CORRECT_POS = [Some p_corrPos, Some p_vel, Some p_predPos]"
| "kernelArgs KERNEL_UPDATE_VEL = [Some p_predPos, Some p_pos, None, Some p_vel]"
| "kernelArgs KERNEL_UPDATE_POS_BOUNCING = [Some p_vel, Some p_predPos, None, Some p_pos]"
| "kernelArgs KERNEL_UPDATE_POS_CYCLIC = [Some p_vel, Some p_predPos, None, Some p_pos]"

definition createKernels :: "cl_call list" where
  "createKernels =
     map (\<lambda>k. CreateKernel k (kernelArgs k))
       [KERNEL_INFINITE_POS, KERNEL_RANDOM_POS,
        KERNEL_FLUSH_GRID_DETECTOR, KERNEL_FILL_GRID_DETECTOR,
        KERNEL_RESET_CAMERA_DIST, KERNEL_FILL_CAMERA_DIST,
        KERNEL_RESET_CELL_ID, KERNEL_FILL_CELL_ID,
        KERNEL_FLUSH_START_END_CELL, KERNEL_FILL_START_CELL,
        KERNEL_FILL_END_CELL, KERNEL_ADJUST_END_CELL,
        KERNEL_PREDICT_POS,
        KERNEL_DENSITY, KERNEL_CONSTRAINT_FACTOR,
        KERNEL_CONSTRAINT_CORRECTION, KERNEL_CORRECT_POS,
        KERNEL_UPDATE_VEL, KERNEL_UPDATE_POS_BOUNCING, KERNEL_UPDATE_POS_CYCLIC]"

subsection \<open>\<^verbatim>\<open>updateFluidsParamsInKernel\<close> and \<^verbatim>\<open>reset\<close>\<close>

definition updateFluidsParamsInKernel :: "fluids \<Rightarrow> cl_call list" where
  "updateFluidsParamsInKernel s =
     [SetKernelArg KERNEL_RANDOM_POS 2 (if m_dimension s = dim2D then 2 else 3),
      SetKernelArg KERNEL_UPDATE_VEL 2 (m_velocity s)]"

text \<open>\<open>now\<close> is the value \<^verbatim>\<open>clock::now()\<close> returns in the call.\<close>

definition reset :: "int \<Rightarrow> fluids \<Rightarrow> fluids \<times> cl_call list" where
  "reset now s =
     (if \<not> m_init s then (s, [])
      else
        (s\<lparr>m_time := now\<rparr>,
         updateFluidsParamsInKernel s @
         [AcquireGLBuffers [p_pos, c_partDetector],
          RunKernel KERNEL_INFINITE_POS (m_maxNbParticles s),
          RunKernel KERNEL_RANDOM_POS (m_currNbParticles s),
          RunKernel KERNEL_FLUSH_GRID_DETECTOR (m_nbCells s),
          RunKernel KERNEL_FILL_GRID_DETECTOR (m_currNbParticles s),
          RunKernel KERNEL_RESET_CELL_ID (m_maxNbParticles s),
          RunKernel KERNEL_RESET_CAMERA_DIST (m_maxNbParticles s),
          ReleaseGLBuffers [p_pos, c_partDetector]]))"

subsection \<open>The constructor\<close>

text \<open>
  \<open>base\<close> holds the members as the constructor of \<^verbatim>\<open>Model\<close> leaves them; the initialiser
  list sets the members of \<^verbatim>\<open>Fluids\<close> (the radix sort and the target hold nothing the
  file reads), the body creates program, buffers and kernels, sets \<open>m_init\<close> and resets.
  The body tests nothing. Where \<^verbatim>\<open>createProgram\<close> traps, nothing after it runs and no
  object is constructed: the result is \<open>None\<close>.
\<close>

definition Fluids_init :: "fluids \<Rightarrow> fluids" where
  "Fluids_init base =
     base\<lparr> m_scaleAlignment := 16 / 10,
           m_scaleCohesion := 145 / 100,
           m_scaleSeparation := 16 / 10,
           m_activeAlignment := True,
           m_activeSeparation := True,
           m_activeCohesion := True,
           m_simplifiedMode := True,
           m_maxNbPartsInCell := 1000 \<rparr>"

definition Fluids :: "nat \<Rightarrow> int \<Rightarrow> fluids \<Rightarrow> (fluids \<times> cl_call list) option" where
  "Fluids bits now base =
     (let s0 = Fluids_init base
      in case createProgram bits s0 of
           None \<Rightarrow> None
         | Some programCalls \<Rightarrow>
             (let calls = programCalls @ createBuffers s0 @ createKernels;
                  s1 = s0\<lparr>m_init := True\<rparr>;
                  (s2, resetCalls) = reset now s1
              in Some (s2, calls @ resetCalls)))"

subsection \<open>\<^verbatim>\<open>update\<close>\<close>

text \<open>
  Line 195: the difference of two time points, cast to whole milliseconds (the cast
  truncates towards zero; \<open>perMs\<close> is the number of clock periods in a millisecond),
  converted to \<^verbatim>\<open>float\<close> and divided by 16. The conversion is monotone and exact on
  480 and 481, and the division by 16 is exact, so the test against 30 is the test over
  the reals; the value that passes it is the real quotient whenever the count is below
  \<open>2 ^ 24\<close> in magnitude.
\<close>

definition elapsedMs :: "int \<Rightarrow> int \<Rightarrow> int \<Rightarrow> int" where
  "elapsedMs perMs currentTime prevTime = (currentTime - prevTime) sdiv perMs"

definition rawTimeStep :: "int \<Rightarrow> int \<Rightarrow> int \<Rightarrow> real" where
  "rawTimeStep perMs currentTime prevTime =
     real_of_int (elapsedMs perMs currentTime prevTime) / 16"

definition clampTimeStep :: "real \<Rightarrow> real" where
  "clampTimeStep timeStep = (if timeStep > 30 then 0 else timeStep)"

text \<open>The loop of lines 218 to 229, from the value \<open>iter\<close> of its counter on.\<close>

function jacobiLoop :: "int \<Rightarrow> nat \<Rightarrow> cl_call list" where
  "jacobiLoop iter n =
     (if iter < MAX_NB_JACOBI_ITERS then
        [RunKernel KERNEL_DENSITY n,
         RunKernel KERNEL_CONSTRAINT_FACTOR n,
         RunKernel KERNEL_CONSTRAINT_CORRECTION n,
         RunKernel KERNEL_CORRECT_POS n] @ jacobiLoop (iter + 1) n
      else [])"
  by pat_completeness auto
termination
  by (relation "measure (\<lambda>(iter, n). nat (MAX_NB_JACOBI_ITERS - iter))") auto

declare jacobiLoop.simps [simp del]

definition update :: "int \<Rightarrow> int \<Rightarrow> fluids \<Rightarrow> fluids \<times> cl_call list" where
  "update perMs currentTime s =
     (if \<not> m_init s then (s, [])
      else
        let (s', physics) =
          (if \<not> m_pause s then
             let timeStep = clampTimeStep (rawTimeStep perMs currentTime (m_time s))
             in (s\<lparr>m_time := currentTime\<rparr>,
                 [RunKernel KERNEL_FILL_CELL_ID (m_currNbParticles s),
                  RadixSort_sort p_cellID [p_pos, p_vel],
                  SetKernelArg KERNEL_PREDICT_POS 2 timeStep,
                  RunKernel KERNEL_PREDICT_POS (m_currNbParticles s),
                  RunKernel KERNEL_FLUSH_START_END_CELL (m_nbCells s),
                  RunKernel KERNEL_FILL_START_CELL (m_currNbParticles s),
                  RunKernel KERNEL_FILL_END_CELL (m_currNbParticles s)]
                 @ (if m_simplifiedMode s
                    then [RunKernel KERNEL_ADJUST_END_CELL (m_nbCells s)] else [])
                 @ jacobiLoop 0 (m_currNbParticles s)
                 @ [SetKernelArg KERNEL_UPDATE_VEL 1 timeStep,
                    RunKernel KERNEL_UPDATE_VEL (m_currNbParticles s)]
                 @ (case m_boundary s of
                      CyclicWall \<Rightarrow>
                        [SetKernelArg KERNEL_UPDATE_POS_CYCLIC 1 timeStep,
                         RunKernel KERNEL_UPDATE_POS_CYCLIC (m_currNbParticles s)]
                    | BouncingWall \<Rightarrow>
                        [SetKernelArg KERNEL_UPDATE_POS_BOUNCING 1 timeStep,
                         RunKernel KERNEL_UPDATE_POS_BOUNCING (m_currNbParticles s)]
                    | InvalidBoundary \<Rightarrow> [])
                 @ [RunKernel KERNEL_FLUSH_GRID_DETECTOR (m_nbCells s),
                    RunKernel KERNEL_FILL_GRID_DETECTOR (m_currNbParticles s)])
           else (s, []))
        in (s',
            [AcquireGLBuffers [p_pos, c_partDetector, u_cameraPos]]
            @ physics
            @ [RunKernel KERNEL_FILL_CAMERA_DIST (m_currNbParticles s),
               RadixSort_sort p_cameraDist [p_pos, p_vel],
               ReleaseGLBuffers [p_pos, c_partDetector, u_cameraPos]]))"

subsection \<open>Reading a list of calls\<close>

text \<open>The kernels a list of calls dispatches, in order, and the sorts it runs.\<close>

fun kernelsRun :: "cl_call list \<Rightarrow> kernel list" where
  "kernelsRun [] = []"
| "kernelsRun (RunKernel k n # cs) = k # kernelsRun cs"
| "kernelsRun (c # cs) = kernelsRun cs"

fun sortsRun :: "cl_call list \<Rightarrow> (buffer \<times> buffer list) list" where
  "sortsRun [] = []"
| "sortsRun (RadixSort_sort key payloads # cs) = (key, payloads) # sortsRun cs"
| "sortsRun (c # cs) = sortsRun cs"

text \<open>The values a list of calls sets argument \<open>i\<close> of kernel \<open>k\<close> to, in order.\<close>

fun argsSet :: "kernel \<Rightarrow> nat \<Rightarrow> cl_call list \<Rightarrow> real list" where
  "argsSet k i [] = []"
| "argsSet k i (SetKernelArg k' i' x # cs) =
     (if k' = k \<and> i' = i then x # argsSet k i cs else argsSet k i cs)"
| "argsSet k i (c # cs) = argsSet k i cs"

section \<open>The device\<close>

text \<open>
  Modelled from the spec: the OpenCL context (\<^verbatim>\<open>CL::Context\<close>), whose code is not part of
  \<^verbatim>\<open>Fluids.cpp\<close>. The specification describes it as a dispatch primitive: \<^verbatim>\<open>run\<close>
  executes a named operation over a number of work items, \<^verbatim>\<open>setArgument\<close> binds a
  scalar before a run. A device holds the content of every buffer and the scalar
  arguments set so far. What a kernel computes is a parameter \<open>sem\<close>: given the kernel,
  its scalar arguments, the number of work items and the content of the buffers the
  kernel was created with, it returns their new content. A kernel therefore reads and
  writes the buffers \<^verbatim>\<open>createKernels\<close> binds it to, and no other.
\<close>

record 'v device =
  buf :: "buffer \<Rightarrow> 'v list"
  karg :: "kernel \<Rightarrow> nat \<Rightarrow> real option"

type_synonym 'v kernel_sem =
  "kernel \<Rightarrow> (nat \<Rightarrow> real option) \<Rightarrow> nat \<Rightarrow> 'v list list \<Rightarrow> 'v list list"

definition boundBuffers :: "kernel \<Rightarrow> buffer list" where
  "boundBuffers k = [b. Some b \<leftarrow> kernelArgs k]"

definition store :: "buffer list \<Rightarrow> 'v list list \<Rightarrow> (buffer \<Rightarrow> 'v list) \<Rightarrow> buffer \<Rightarrow> 'v list" where
  "store bs outs f = fold (\<lambda>(b, v) g. g(b := v)) (zip bs outs) f"

definition runKernel :: "'v kernel_sem \<Rightarrow> kernel \<Rightarrow> nat \<Rightarrow> 'v device \<Rightarrow> 'v device" where
  "runKernel sem k n d =
     d\<lparr>buf := store (boundBuffers k)
                 (sem k (karg d k) n (map (buf d) (boundBuffers k))) (buf d)\<rparr>"

text \<open>
  Modelled from the spec: \<^verbatim>\<open>RadixSort::sort\<close>, whose code is not part of \<^verbatim>\<open>Fluids.cpp\<close>.
  The specification: the new ordering is ascending by key, stable among equal keys, and
  the same permutation is applied to the key array and to every payload array.
  \<open>sortPermutation keys\<close> lists the old index of each new position; \<open>keyOf\<close> reads an
  element of the key buffer as an unsigned integer.
\<close>

definition sortPermutation :: "nat list \<Rightarrow> nat list" where
  "sortPermutation keys = sort_key (\<lambda>i. keys ! i) [0..<length keys]"

definition permuted :: "nat list \<Rightarrow> 'a list \<Rightarrow> 'a list" where
  "permuted perm xs = map (\<lambda>i. xs ! i) perm"

definition radixSort :: "('v \<Rightarrow> nat) \<Rightarrow> buffer \<Rightarrow> buffer list \<Rightarrow> 'v device \<Rightarrow> 'v device" where
  "radixSort keyOf key payloads d =
     (let perm = sortPermutation (map keyOf (buf d key))
      in d\<lparr>buf := (\<lambda>b. if b = key \<or> b \<in> set payloads
                         then permuted perm (buf d b) else buf d b)\<rparr>)"

text \<open>One call on the device. Creating and acquiring leave the content of the buffers.\<close>

fun exec :: "'v kernel_sem \<Rightarrow> ('v \<Rightarrow> nat) \<Rightarrow> cl_call \<Rightarrow> 'v device \<Rightarrow> 'v device" where
  "exec sem keyOf (SetKernelArg k i x) d = d\<lparr>karg := (karg d)(k := (karg d k)(i \<mapsto> x))\<rparr>"
| "exec sem keyOf (RunKernel k n) d = runKernel sem k n d"
| "exec sem keyOf (RadixSort_sort key payloads) d = radixSort keyOf key payloads d"
| "exec sem keyOf (CreateProgram opts) d = d"
| "exec sem keyOf (CreateGLBuffer b) d = d"
| "exec sem keyOf (CreateBuffer b n) d = d"
| "exec sem keyOf (CreateKernel k args) d = d"
| "exec sem keyOf (AcquireGLBuffers bs) d = d"
| "exec sem keyOf (ReleaseGLBuffers bs) d = d"

definition execAll :: "'v kernel_sem \<Rightarrow> ('v \<Rightarrow> nat) \<Rightarrow> cl_call list \<Rightarrow> 'v device \<Rightarrow> 'v device" where
  "execAll sem keyOf calls d = fold (exec sem keyOf) calls d"

subsection \<open>Kernels on a line\<close>

text \<open>
  Modelled from the spec: the two kernels \<^verbatim>\<open>fillCellIDs\<close> and \<^verbatim>\<open>predictPosition\<close> of
  \<^verbatim>\<open>fluids.cl\<close>, which is not part of \<^verbatim>\<open>Fluids.cpp\<close>, on particles with one coordinate,
  each as the specification words it.
  \<^item> Grid index: the cell of a predicted position, with cells of width 1.
  \<^item> Predict: \<^verbatim>\<open>PredictedPosition[i] = Position[i] + Velocity[i] * timeStep\<close>, the time
    step being the scalar argument 2.
  A kernel works on the first \<open>n\<close> elements, one work item each. What every other kernel
  computes is the parameter \<open>rest\<close>.
\<close>

definition workItems :: "nat \<Rightarrow> 'a list \<Rightarrow> (nat \<Rightarrow> 'a) \<Rightarrow> 'a list" where
  "workItems n out f = map (\<lambda>i. if i < n then f i else out ! i) [0..<length out]"

definition scalarArg :: "(nat \<Rightarrow> real option) \<Rightarrow> nat \<Rightarrow> real" where
  "scalarArg a i = (case a i of Some x \<Rightarrow> x | None \<Rightarrow> 0)"

fun lineKernels :: "real kernel_sem \<Rightarrow> real kernel_sem" where
  "lineKernels rest KERNEL_FILL_CELL_ID a n [pred, cell] =
     [pred, workItems n cell (\<lambda>i. of_int \<lfloor>pred ! i\<rfloor>)]"
| "lineKernels rest KERNEL_PREDICT_POS a n [pos, vel, pred] =
     [pos, vel, workItems n pred (\<lambda>i. pos ! i + vel ! i * scalarArg a 2)]"
| "lineKernels rest k a n bufs = rest k a n bufs"

text \<open>A key buffer on the line holds whole numbers; \<open>lineKey\<close> reads one.\<close>

definition lineKey :: "real \<Rightarrow> nat" where
  "lineKey x = nat \<lfloor>x\<rfloor>"

text \<open>
  Modelled from the spec: \<^verbatim>\<open>adjustEndCell\<close> of \<^verbatim>\<open>fluids.cl\<close>, on the table of (start, end)
  pairs: it caps \<open>end\<close> so that \<open>end - start\<close> is at most the maximum number of particles
  in a cell, and reports nothing.
\<close>

definition adjustEndCell :: "nat \<Rightarrow> (nat \<times> nat) list \<Rightarrow> (nat \<times> nat) list" where
  "adjustEndCell maxParts table =
     map (\<lambda>(startIndex, endIndex).
            (startIndex,
             if endIndex - startIndex > maxParts then startIndex + maxParts else endIndex))
         table"

subsection \<open>A scenario\<close>

text \<open>
  The members as in the end-to-end scenario of the specification: 1000 particles in a
  box of size 10, a grid of resolution 16, cyclic walls, not paused. \<open>scenario\<close> is the
  model the constructor makes of them at time 0, with members of 64 bits.
\<close>

definition scenarioBase :: fluids where
  "scenarioBase =
     \<lparr> m_init = False, m_pause = False, m_time = 0,
       m_dimension = dimOther, m_boundary = CyclicWall, m_velocity = 1,
       m_boxSize = 10, m_gridRes = 16, m_nbCells = 4096,
       m_currNbParticles = 1000, m_maxNbParticles = 1000,
       m_scaleAlignment = 0, m_scaleCohesion = 0, m_scaleSeparation = 0,
       m_activeAlignment = False, m_activeSeparation = False, m_activeCohesion = False,
       m_simplifiedMode = False, m_maxNbPartsInCell = 0 \<rparr>"

definition scenario :: fluids where
  "scenario = (case Fluids 64 0 scenarioBase of Some (s, calls) \<Rightarrow> s | None \<Rightarrow> scenarioBase)"

text \<open>Two particles on a line, and the members for them. The clock counts nanoseconds.\<close>

definition pair :: fluids where
  "pair = scenario\<lparr>m_currNbParticles := 2, m_maxNbParticles := 2, m_nbCells := 16\<rparr>"

definition pairDevice :: "real device" where
  "pairDevice =
     \<lparr> buf = (\<lambda>b. if b = p_pos then [5, 1]
                  else if b = p_predPos then [5, 1]
                  else if b = u_cameraPos then [0]
                  else if b = c_startEndPartID \<or> b = c_partDetector then []
                  else [0, 0]),
       karg = (\<lambda>k i. None) \<rparr>"

subsection \<open>Parts of a tick\<close>

text \<open>
  One round of the solver, the test for its four passes, and the calls of the
  \<^verbatim>\<open>switch\<close> on \<open>m_boundary\<close> (lines 235 to 245), named so that the properties can
  speak of them.
\<close>

definition jacobiRound :: "nat \<Rightarrow> cl_call list" where
  "jacobiRound n =
     [RunKernel KERNEL_DENSITY n, RunKernel KERNEL_CONSTRAINT_FACTOR n,
      RunKernel KERNEL_CONSTRAINT_CORRECTION n, RunKernel KERNEL_CORRECT_POS n]"

fun isSolverPass :: "kernel \<Rightarrow> bool" where
  "isSolverPass KERNEL_DENSITY = True"
| "isSolverPass KERNEL_CONSTRAINT_FACTOR = True"
| "isSolverPass KERNEL_CONSTRAINT_CORRECTION = True"
| "isSolverPass KERNEL_CORRECT_POS = True"
| "isSolverPass k = False"

definition boundaryCalls :: "Boundary \<Rightarrow> real \<Rightarrow> nat \<Rightarrow> cl_call list" where
  "boundaryCalls b timeStep n =
     (case b of
        CyclicWall \<Rightarrow> [SetKernelArg KERNEL_UPDATE_POS_CYCLIC 1 timeStep, RunKernel KERNEL_UPDATE_POS_CYCLIC n]
      | BouncingWall \<Rightarrow> [SetKernelArg KERNEL_UPDATE_POS_BOUNCING 1 timeStep, RunKernel KERNEL_UPDATE_POS_BOUNCING n]
      | InvalidBoundary \<Rightarrow> [])"

text \<open>
  The two kernels of the occupancy grid (\<^verbatim>\<open>c_partDetector\<close>).
\<close>

fun isGridDetector :: "kernel \<Rightarrow> bool" where
  "isGridDetector KERNEL_FLUSH_GRID_DETECTOR = True"
| "isGridDetector KERNEL_FILL_GRID_DETECTOR = True"
| "isGridDetector k = False"

text \<open>
  The two particles with the pause flag set.
\<close>

definition pausedPair :: fluids where
  "pausedPair = pair\<lparr>m_pause := True\<rparr>"



text \<open>
  The scenario in a box of size 46341 on a grid of resolution 1.
\<close>

definition wideBox :: fluids where
  "wideBox = scenario\<lparr>m_boxSize := 46341, m_gridRes := 1\<rparr>"

text \<open>
  Two particles about to cross: at 0 moving right and at 3 moving left, each by 3 per unit
  of time. \<^verbatim>\<open>p_predPos\<close> holds what the previous tick left there, the positions.
\<close>

definition crossingDevice :: "real device" where
  "crossingDevice =
     \<lparr> buf = (\<lambda>b. if b = p_pos then [0, 3]
                  else if b = p_vel then [3, - 3]
                  else if b = p_predPos then [0, 3]
                  else if b = u_cameraPos then [0]
                  else if b = c_startEndPartID \<or> b = c_partDetector then []
                  else [0, 0]),
       karg = (\<lambda>k i. None) \<rparr>"

text \<open>
  Three particles whose cell identifiers are out of order.
\<close>

definition shuffledDevice :: "real device" where
  "shuffledDevice =
     \<lparr> buf = (\<lambda>b. if b = p_cellID then [2, 0, 1]
                  else if b = p_pos then [20, 0, 10]
                  else if b = p_vel then [- 2, 0, - 1]
                  else []),
       karg = (\<lambda>k i. None) \<rparr>"

section \<open>Properties\<close>

subsection \<open>The calls of a tick, and the device under them\<close>

lemma jacobiLoop_0:
  "jacobiLoop 0 n =
     [RunKernel KERNEL_DENSITY n, RunKernel KERNEL_CONSTRAINT_FACTOR n,
      RunKernel KERNEL_CONSTRAINT_CORRECTION n, RunKernel KERNEL_CORRECT_POS n,
      RunKernel KERNEL_DENSITY n, RunKernel KERNEL_CONSTRAINT_FACTOR n,
      RunKernel KERNEL_CONSTRAINT_CORRECTION n, RunKernel KERNEL_CORRECT_POS n,
      RunKernel KERNEL_DENSITY n, RunKernel KERNEL_CONSTRAINT_FACTOR n,
      RunKernel KERNEL_CONSTRAINT_CORRECTION n, RunKernel KERNEL_CORRECT_POS n]"
proof -
  have 3: "jacobiLoop 3 n = []"
    by (subst jacobiLoop.simps) (simp add: MAX_NB_JACOBI_ITERS_def)
  have 2: "jacobiLoop 2 n =
      [RunKernel KERNEL_DENSITY n, RunKernel KERNEL_CONSTRAINT_FACTOR n,
       RunKernel KERNEL_CONSTRAINT_CORRECTION n, RunKernel KERNEL_CORRECT_POS n]"
    by (subst jacobiLoop.simps) (simp add: MAX_NB_JACOBI_ITERS_def 3)
  have 1: "jacobiLoop 1 n =
      [RunKernel KERNEL_DENSITY n, RunKernel KERNEL_CONSTRAINT_FACTOR n,
       RunKernel KERNEL_CONSTRAINT_CORRECTION n, RunKernel KERNEL_CORRECT_POS n]
      @ jacobiLoop 2 n"
    by (subst jacobiLoop.simps) (simp add: MAX_NB_JACOBI_ITERS_def)
  have 0: "jacobiLoop 0 n =
      [RunKernel KERNEL_DENSITY n, RunKernel KERNEL_CONSTRAINT_FACTOR n,
       RunKernel KERNEL_CONSTRAINT_CORRECTION n, RunKernel KERNEL_CORRECT_POS n]
      @ jacobiLoop 1 n"
    by (subst jacobiLoop.simps) (simp add: MAX_NB_JACOBI_ITERS_def)
  show ?thesis by (simp add: 0 1 2)
qed

lemma jacobiLoop_rounds: "jacobiLoop 0 n = concat (replicate 3 (jacobiRound n))"
  by (simp add: jacobiLoop_0 jacobiRound_def numeral_3_eq_3)

lemma update_uninit: "\<not> m_init s \<Longrightarrow> update perMs now s = (s, [])"
  by (simp add: update_def)

lemma update_paused:
  "m_init s \<Longrightarrow> m_pause s \<Longrightarrow>
   update perMs now s =
     (s, [AcquireGLBuffers [p_pos, c_partDetector, u_cameraPos],
          RunKernel KERNEL_FILL_CAMERA_DIST (m_currNbParticles s),
          RadixSort_sort p_cameraDist [p_pos, p_vel],
          ReleaseGLBuffers [p_pos, c_partDetector, u_cameraPos]])"
  by (simp add: update_def)

lemma update_unpaused:
  "m_init s \<Longrightarrow> \<not> m_pause s \<Longrightarrow>
   update perMs now s =
     (s\<lparr>m_time := now\<rparr>,
      [AcquireGLBuffers [p_pos, c_partDetector, u_cameraPos],
       RunKernel KERNEL_FILL_CELL_ID (m_currNbParticles s),
       RadixSort_sort p_cellID [p_pos, p_vel],
       SetKernelArg KERNEL_PREDICT_POS 2 (clampTimeStep (rawTimeStep perMs now (m_time s))),
       RunKernel KERNEL_PREDICT_POS (m_currNbParticles s),
       RunKernel KERNEL_FLUSH_START_END_CELL (m_nbCells s),
       RunKernel KERNEL_FILL_START_CELL (m_currNbParticles s),
       RunKernel KERNEL_FILL_END_CELL (m_currNbParticles s)]
      @ (if m_simplifiedMode s then [RunKernel KERNEL_ADJUST_END_CELL (m_nbCells s)] else [])
      @ jacobiLoop 0 (m_currNbParticles s)
      @ [SetKernelArg KERNEL_UPDATE_VEL 1 (clampTimeStep (rawTimeStep perMs now (m_time s))),
         RunKernel KERNEL_UPDATE_VEL (m_currNbParticles s)]
      @ boundaryCalls (m_boundary s) (clampTimeStep (rawTimeStep perMs now (m_time s))) (m_currNbParticles s)
      @ [RunKernel KERNEL_FLUSH_GRID_DETECTOR (m_nbCells s),
         RunKernel KERNEL_FILL_GRID_DETECTOR (m_currNbParticles s),
         RunKernel KERNEL_FILL_CAMERA_DIST (m_currNbParticles s),
         RadixSort_sort p_cameraDist [p_pos, p_vel],
         ReleaseGLBuffers [p_pos, c_partDetector, u_cameraPos]])"
  by (simp add: update_def Let_def boundaryCalls_def)

lemma kernelsRun_append: "kernelsRun (xs @ ys) = kernelsRun xs @ kernelsRun ys"
  by (induction xs rule: kernelsRun.induct) simp_all

lemma sortsRun_append: "sortsRun (xs @ ys) = sortsRun xs @ sortsRun ys"
  by (induction xs rule: sortsRun.induct) simp_all

lemma argsSet_append: "argsSet k i (xs @ ys) = argsSet k i xs @ argsSet k i ys"
  by (induction k i xs rule: argsSet.induct) simp_all

lemma kernelsRun_boundaryCalls:
  "kernelsRun (boundaryCalls b t n) =
     (case b of CyclicWall \<Rightarrow> [KERNEL_UPDATE_POS_CYCLIC] | BouncingWall \<Rightarrow> [KERNEL_UPDATE_POS_BOUNCING]
      | InvalidBoundary \<Rightarrow> [])"
  by (simp add: boundaryCalls_def split: Boundary.split)

lemma sortsRun_boundaryCalls: "sortsRun (boundaryCalls b t n) = []"
  by (simp add: boundaryCalls_def split: Boundary.split)

lemma scenario_eq:
  "scenario = \<lparr>m_init = True, m_pause = False, m_time = 0, m_dimension = dimOther,
    m_boundary = CyclicWall, m_velocity = 1, m_boxSize = 10, m_gridRes = 16,
    m_nbCells = 4096, m_currNbParticles = 1000, m_maxNbParticles = 1000,
    m_scaleAlignment = 16 / 10, m_scaleCohesion = 145 / 100,
    m_scaleSeparation = 16 / 10, m_activeAlignment = True,
    m_activeSeparation = True, m_activeCohesion = True,
    m_simplifiedMode = True, m_maxNbPartsInCell = 1000\<rparr>"
  by (simp add: scenario_def Fluids_def Fluids_init_def reset_def scenarioBase_def Let_def
      createProgram_def clBuildOptions_def effectRadiusSquared_def)

lemma pair_eq:
  "pair = \<lparr>m_init = True, m_pause = False, m_time = 0, m_dimension = dimOther,
    m_boundary = CyclicWall, m_velocity = 1, m_boxSize = 10, m_gridRes = 16,
    m_nbCells = 16, m_currNbParticles = 2, m_maxNbParticles = 2,
    m_scaleAlignment = 16 / 10, m_scaleCohesion = 145 / 100,
    m_scaleSeparation = 16 / 10, m_activeAlignment = True,
    m_activeSeparation = True, m_activeCohesion = True,
    m_simplifiedMode = True, m_maxNbPartsInCell = 1000\<rparr>"
  by (simp add: pair_def scenario_eq)

lemma rawTimeStep_481: "rawTimeStep 1000000 481000000 0 = 481 / 16"
  by (simp add: rawTimeStep_def elapsedMs_def signed_divide_int_def)

lemma rawTimeStep_16: "rawTimeStep 1000000 16000000 0 = 1"
  by (simp add: rawTimeStep_def elapsedMs_def signed_divide_int_def)

lemma pair_late_calls:
  "snd (update 1000000 481000000 pair) =
 [AcquireGLBuffers [p_pos, c_partDetector, u_cameraPos],
  RunKernel KERNEL_FILL_CELL_ID 2, RadixSort_sort p_cellID [p_pos, p_vel],
  SetKernelArg KERNEL_PREDICT_POS 2 0, RunKernel KERNEL_PREDICT_POS 2,
  RunKernel KERNEL_FLUSH_START_END_CELL 16,
  RunKernel KERNEL_FILL_START_CELL 2, RunKernel KERNEL_FILL_END_CELL 2,
  RunKernel KERNEL_ADJUST_END_CELL 16, RunKernel KERNEL_DENSITY 2,
  RunKernel KERNEL_CONSTRAINT_FACTOR 2,
  RunKernel KERNEL_CONSTRAINT_CORRECTION 2, RunKernel KERNEL_CORRECT_POS 2,
  RunKernel KERNEL_DENSITY 2, RunKernel KERNEL_CONSTRAINT_FACTOR 2,
  RunKernel KERNEL_CONSTRAINT_CORRECTION 2, RunKernel KERNEL_CORRECT_POS 2,
  RunKernel KERNEL_DENSITY 2, RunKernel KERNEL_CONSTRAINT_FACTOR 2,
  RunKernel KERNEL_CONSTRAINT_CORRECTION 2, RunKernel KERNEL_CORRECT_POS 2,
  SetKernelArg KERNEL_UPDATE_VEL 1 0, RunKernel KERNEL_UPDATE_VEL 2,
  SetKernelArg KERNEL_UPDATE_POS_CYCLIC 1 0,
  RunKernel KERNEL_UPDATE_POS_CYCLIC 2,
  RunKernel KERNEL_FLUSH_GRID_DETECTOR 16,
  RunKernel KERNEL_FILL_GRID_DETECTOR 2,
  RunKernel KERNEL_FILL_CAMERA_DIST 2,
  RadixSort_sort p_cameraDist [p_pos, p_vel],
  ReleaseGLBuffers [p_pos, c_partDetector, u_cameraPos]]"
  by (simp add: update_unpaused pair_eq rawTimeStep_481 clampTimeStep_def jacobiLoop_0 boundaryCalls_def)

lemma store_simps [simp]:
  "store [] outs f = f"
  "store bs [] f = f"
  "store (b # bs) (v # outs) f = store bs outs (f(b := v))"
  by (simp_all add: store_def)

lemmas device_eval =
  execAll_def runKernel_def boundBuffers_def radixSort_def sortPermutation_def permuted_def
  workItems_def scalarArg_def lineKey_def Let_def

lemma store_other: "b \<notin> set bs \<Longrightarrow> store bs outs f b = f b"
proof (induction bs arbitrary: outs f)
  case Nil
  then show ?case by simp
next
  case (Cons a bs)
  then show ?case by (cases outs) simp_all
qed

lemma buf_runKernel_other:
  "b \<notin> set (boundBuffers k) \<Longrightarrow> buf (runKernel sem k n d) b = buf d b"
  by (simp add: runKernel_def store_other)

lemma karg_runKernel [simp]: "karg (runKernel sem k n d) = karg d"
  by (simp add: runKernel_def)

lemma buf_radixSort_other:
  "b \<noteq> key \<Longrightarrow> b \<notin> set payloads \<Longrightarrow> buf (radixSort keyOf key payloads d) b = buf d b"
  by (simp add: radixSort_def Let_def)

lemma karg_radixSort [simp]: "karg (radixSort keyOf key payloads d) = karg d"
  by (simp add: radixSort_def Let_def)

lemma mset_sortPermutation: "mset (sortPermutation keys) = mset [0..<length keys]"
  by (simp add: sortPermutation_def)

lemma set_sortPermutation: "set (sortPermutation keys) = {0..<length keys}"
  by (simp add: sortPermutation_def)

lemma zip_permuted:
  "\<forall>i\<in>set perm. i < length xs \<and> i < length ys \<Longrightarrow>
   zip (permuted perm xs) (permuted perm ys) = permuted perm (zip xs ys)"
  by (induction perm) (simp_all add: permuted_def)

lemma mset_permuted:
  assumes "mset perm = mset [0..<length xs]"
  shows "mset (permuted perm xs) = mset xs"
proof -
  have "mset (permuted perm xs) = image_mset (\<lambda>i. xs ! i) (mset perm)"
    by (simp add: permuted_def)
  also have "\<dots> = mset (map (\<lambda>i. xs ! i) [0..<length xs])"
    by (simp add: assms)
  also have "\<dots> = mset xs"
    by (simp add: map_nth)
  finally show ?thesis .
qed

lemma sortsRun_update:
  "m_init s \<Longrightarrow>
   sortsRun (snd (update perMs now s)) =
     (if m_pause s then [] else [(p_cellID, [p_pos, p_vel])]) @ [(p_cameraDist, [p_pos, p_vel])]"
  by (cases "m_pause s")
     (simp_all add: update_paused update_unpaused sortsRun_append sortsRun_boundaryCalls jacobiLoop_0)

lemma sortsRun_reset: "sortsRun (snd (reset now s)) = []"
  by (simp add: reset_def updateFluidsParamsInKernel_def)

lemma argsSet_boundaryCalls:
  "argsSet k i (boundaryCalls b t n) =
     (if (b = CyclicWall \<and> k = KERNEL_UPDATE_POS_CYCLIC \<or> b = BouncingWall \<and> k = KERNEL_UPDATE_POS_BOUNCING)
         \<and> i = 1 then [t] else [])"
  by (simp add: boundaryCalls_def split: Boundary.split)

lemma rawTimeStep_over_30:
  "(rawTimeStep perMs now prev > 30) = (elapsedMs perMs now prev > 480)"
  by (simp add: rawTimeStep_def)

lemma kernelsRun_update_unpaused:
  "m_init s \<Longrightarrow> \<not> m_pause s \<Longrightarrow>
   kernelsRun (snd (update perMs now s)) =
     [KERNEL_FILL_CELL_ID, KERNEL_PREDICT_POS, KERNEL_FLUSH_START_END_CELL,
      KERNEL_FILL_START_CELL, KERNEL_FILL_END_CELL]
     @ (if m_simplifiedMode s then [KERNEL_ADJUST_END_CELL] else [])
     @ [KERNEL_DENSITY, KERNEL_CONSTRAINT_FACTOR, KERNEL_CONSTRAINT_CORRECTION, KERNEL_CORRECT_POS,
        KERNEL_DENSITY, KERNEL_CONSTRAINT_FACTOR, KERNEL_CONSTRAINT_CORRECTION, KERNEL_CORRECT_POS,
        KERNEL_DENSITY, KERNEL_CONSTRAINT_FACTOR, KERNEL_CONSTRAINT_CORRECTION, KERNEL_CORRECT_POS,
        KERNEL_UPDATE_VEL]
     @ (case m_boundary s of CyclicWall \<Rightarrow> [KERNEL_UPDATE_POS_CYCLIC]
        | BouncingWall \<Rightarrow> [KERNEL_UPDATE_POS_BOUNCING] | InvalidBoundary \<Rightarrow> [])
     @ [KERNEL_FLUSH_GRID_DETECTOR, KERNEL_FILL_GRID_DETECTOR, KERNEL_FILL_CAMERA_DIST]"
  by (simp add: update_unpaused kernelsRun_append kernelsRun_boundaryCalls jacobiLoop_0)

lemma kernelsRun_update_paused:
  "m_init s \<Longrightarrow> m_pause s \<Longrightarrow> kernelsRun (snd (update perMs now s)) = [KERNEL_FILL_CAMERA_DIST]"
  by (simp add: update_paused)

lemma pair_tick_calls:
  "take 5 (snd (update 1000000 16000000 pair)) =
     [AcquireGLBuffers [p_pos, c_partDetector, u_cameraPos],
      RunKernel KERNEL_FILL_CELL_ID 2,
      RadixSort_sort p_cellID [p_pos, p_vel],
      SetKernelArg KERNEL_PREDICT_POS 2 1,
      RunKernel KERNEL_PREDICT_POS 2]"
  by (simp add: update_unpaused pair_eq rawTimeStep_16 clampTimeStep_def)

lemma pausedPair_eq:
  "pausedPair = \<lparr>m_init = True, m_pause = True, m_time = 0, m_dimension = dimOther,
    m_boundary = CyclicWall, m_velocity = 1, m_boxSize = 10, m_gridRes = 16,
    m_nbCells = 16, m_currNbParticles = 2, m_maxNbParticles = 2,
    m_scaleAlignment = 16 / 10, m_scaleCohesion = 145 / 100,
    m_scaleSeparation = 16 / 10, m_activeAlignment = True,
    m_activeSeparation = True, m_activeCohesion = True,
    m_simplifiedMode = True, m_maxNbPartsInCell = 1000\<rparr>"
  by (simp add: pausedPair_def pair_eq)

lemma adjustEndCell_nth:
  "c < length table \<Longrightarrow>
   adjustEndCell maxParts table ! c =
     (fst (table ! c),
      if snd (table ! c) - fst (table ! c) > maxParts then fst (table ! c) + maxParts
      else snd (table ! c))"
  by (simp add: adjustEndCell_def case_prod_beta)

lemma castToInt_small: "n < 2 ^ 31 \<Longrightarrow> castToInt n = int n"
  by (simp add: castToInt_def)


lemma createProgram_Some:
  "m_gridRes s * m_gridRes s mod 2 ^ bits \<noteq> 0 \<Longrightarrow>
   createProgram bits s = Some [CreateProgram (clBuildOptions bits s)]"
  by (simp add: createProgram_def clBuildOptions_def effectRadiusSquared_def Let_def)





lemma argsSet_updateVel_2_update: "argsSet KERNEL_UPDATE_VEL 2 (snd (update perMs now s)) = []"
proof (cases "m_init s")
  case False
  then show ?thesis by (simp add: update_uninit)
next
  case True
  then show ?thesis
    by (cases "m_pause s")
       (simp_all add: update_paused update_unpaused argsSet_append argsSet_boundaryCalls jacobiLoop_0)
qed

lemma stalled_tick_clamps_time_step:
  assumes "m_init s" and "\<not> m_pause s" and "rawTimeStep perMs now (m_time s) > 30"
  shows "elapsedMs perMs now (m_time s) > 480
     \<and> argsSet KERNEL_PREDICT_POS 2 (snd (update perMs now s)) = [0]
     \<and> argsSet KERNEL_UPDATE_VEL 1 (snd (update perMs now s)) = [0]
     \<and> (\<forall>k i. \<forall>x \<in> set (argsSet k i (snd (update perMs now s))). x = 0)"
proof -
  have ts: "clampTimeStep (rawTimeStep perMs now (m_time s)) = 0"
    using assms(3) by (simp add: clampTimeStep_def)
  have "elapsedMs perMs now (m_time s) > 480"
    using assms(3) by (simp add: rawTimeStep_over_30)
  moreover have "argsSet KERNEL_PREDICT_POS 2 (snd (update perMs now s)) = [0]"
    using assms(1,2) by (simp add: update_unpaused ts argsSet_append argsSet_boundaryCalls jacobiLoop_0)
  moreover have "argsSet KERNEL_UPDATE_VEL 1 (snd (update perMs now s)) = [0]"
    using assms(1,2) by (simp add: update_unpaused ts argsSet_append argsSet_boundaryCalls jacobiLoop_0)
  moreover have "\<forall>k i. \<forall>x \<in> set (argsSet k i (snd (update perMs now s))). x = 0"
    using assms(1,2) by (simp add: update_unpaused ts argsSet_append argsSet_boundaryCalls jacobiLoop_0)
  ultimately show ?thesis by blast
qed

subsection \<open>The time step of a stalled tick\<close>

text \<open>
  C1 fails on the code. The two particles, reset at time 0 with \<open>m_velocity\<close> 1, and a
  tick 481 ms later: the derived time step exceeds 30 and is reset to zero. The predict
  kernel gets the zero on argument 2, the argument its creation leaves for a scalar. The
  velocity kernel has its scalar on argument 2 as well, but the tick sets the zero on
  argument 1, which is bound to the buffer \<^verbatim>\<open>p_pos\<close>, and never sets argument 2: when the
  kernel is dispatched its scalar is still the \<open>m_velocity\<close> that \<^verbatim>\<open>reset\<close> put there,
  whatever the kernels compute.
\<close>

theorem zero_time_step_misses_update_vel:
  "rawTimeStep 1000000 481000000 (m_time pair) > 30
   \<and> kernelArgs KERNEL_PREDICT_POS = [Some p_pos, Some p_vel, None, Some p_predPos]
   \<and> argsSet KERNEL_PREDICT_POS 2 (snd (update 1000000 481000000 pair)) = [0]
   \<and> kernelArgs KERNEL_UPDATE_VEL = [Some p_predPos, Some p_pos, None, Some p_vel]
   \<and> argsSet KERNEL_UPDATE_VEL 1 (snd (update 1000000 481000000 pair)) = [0]
   \<and> argsSet KERNEL_UPDATE_VEL 2 (snd (update 1000000 481000000 pair)) = []
   \<and> argsSet KERNEL_UPDATE_VEL 2 (snd (reset 0 pair)) = [1]
   \<and> karg (execAll sem keyOf (snd (reset 0 pair) @ snd (update 1000000 481000000 pair)) d)
        KERNEL_PREDICT_POS 2 = Some 0
   \<and> karg (execAll sem keyOf (snd (reset 0 pair) @ snd (update 1000000 481000000 pair)) d)
        KERNEL_UPDATE_VEL 2 = Some 1"
proof -
  have reset_calls: "snd (reset 0 pair) =
     [SetKernelArg KERNEL_RANDOM_POS 2 3,
      SetKernelArg KERNEL_UPDATE_VEL 2 1,
      AcquireGLBuffers [p_pos, c_partDetector],
      RunKernel KERNEL_INFINITE_POS 2,
      RunKernel KERNEL_RANDOM_POS 2,
      RunKernel KERNEL_FLUSH_GRID_DETECTOR 16,
      RunKernel KERNEL_FILL_GRID_DETECTOR 2,
      RunKernel KERNEL_RESET_CELL_ID 2,
      RunKernel KERNEL_RESET_CAMERA_DIST 2,
      ReleaseGLBuffers [p_pos, c_partDetector]]"
    by (simp add: reset_def updateFluidsParamsInKernel_def pair_eq)
  have "rawTimeStep 1000000 481000000 (m_time pair) > 30"
    by (simp add: pair_eq rawTimeStep_481)
  moreover have "kernelArgs KERNEL_PREDICT_POS = [Some p_pos, Some p_vel, None, Some p_predPos]"
    and "kernelArgs KERNEL_UPDATE_VEL = [Some p_predPos, Some p_pos, None, Some p_vel]"
    by simp_all
  moreover have "argsSet KERNEL_PREDICT_POS 2 (snd (update 1000000 481000000 pair)) = [0]"
    and "argsSet KERNEL_UPDATE_VEL 1 (snd (update 1000000 481000000 pair)) = [0]"
    and "argsSet KERNEL_UPDATE_VEL 2 (snd (update 1000000 481000000 pair)) = []"
    by (simp_all add: pair_late_calls)
  moreover have "argsSet KERNEL_UPDATE_VEL 2 (snd (reset 0 pair)) = [1]"
    by (simp add: reset_calls)
  moreover have "karg (execAll sem keyOf (snd (reset 0 pair) @ snd (update 1000000 481000000 pair)) d)
        KERNEL_PREDICT_POS 2 = Some 0"
    unfolding reset_calls pair_late_calls by (simp add: execAll_def)
  moreover have "karg (execAll sem keyOf (snd (reset 0 pair) @ snd (update 1000000 481000000 pair)) d)
        KERNEL_UPDATE_VEL 2 = Some 1"
    unfolding reset_calls pair_late_calls by (simp add: execAll_def)
  ultimately show ?thesis by blast
qed

subsection \<open>The key of the physics sort\<close>

text \<open>
  C2 fails on the code. The tick fills \<^verbatim>\<open>p_cellID\<close> and sorts by it before it runs the
  predict kernel. For the two crossing particles, 16 ms after the previous tick (time
  step 1): at the sort the keys are the cells 0 and 3 of the predicted positions the
  previous tick left, and the prediction of this tick, 3 and 0, is written after the sort.
  Before the first tick nothing has written \<^verbatim>\<open>p_predPos\<close> at all: no kernel the
  constructor and its reset run is bound to it.
\<close>

theorem cell_ids_filled_before_prediction:
  "take 5 (snd (update 1000000 16000000 pair)) =
     [AcquireGLBuffers [p_pos, c_partDetector, u_cameraPos],
      RunKernel KERNEL_FILL_CELL_ID 2,
      RadixSort_sort p_cellID [p_pos, p_vel],
      SetKernelArg KERNEL_PREDICT_POS 2 1,
      RunKernel KERNEL_PREDICT_POS 2]
   \<and> buf crossingDevice p_predPos = [0, 3]
   \<and> buf (execAll (lineKernels rest) lineKey (take 2 (snd (update 1000000 16000000 pair))) crossingDevice) p_cellID
       = [0, 3]
   \<and> buf (execAll (lineKernels rest) lineKey (take 5 (snd (update 1000000 16000000 pair))) crossingDevice) p_predPos
       = [3, 0]
   \<and> map_option (\<lambda>r. p_predPos \<in> set (concat (map boundBuffers (kernelsRun (snd r)))))
        (Fluids 64 0 scenarioBase) = Some False"
proof -
  have 2: "take 2 (snd (update 1000000 16000000 pair)) = take 2 (take 5 (snd (update 1000000 16000000 pair)))"
    by simp
  have "map_option (\<lambda>r. p_predPos \<in> set (concat (map boundBuffers (kernelsRun (snd r)))))
        (Fluids 64 0 scenarioBase) = Some False"
    by (simp add: Fluids_def Fluids_init_def reset_def createProgram_def clBuildOptions_def
        effectRadiusSquared_def createBuffers_def createKernels_def updateFluidsParamsInKernel_def
        scenarioBase_def Let_def boundBuffers_def)
  moreover
  have "buf crossingDevice p_predPos = [0, 3]"
    by (simp add: crossingDevice_def)
  moreover have "buf (execAll (lineKernels rest) lineKey (take 2 (snd (update 1000000 16000000 pair))) crossingDevice) p_cellID
       = [0, 3]"
    unfolding 2 pair_tick_calls by (simp add: device_eval crossingDevice_def)
  moreover have "buf (execAll (lineKernels rest) lineKey (take 5 (snd (update 1000000 16000000 pair))) crossingDevice) p_predPos
       = [3, 0]"
    unfolding pair_tick_calls by (simp add: device_eval crossingDevice_def)
  ultimately show ?thesis
    using pair_tick_calls by blast
qed

subsection \<open>The rounds of the solver\<close>

text \<open>
  C3. The number of rounds is the constant 3. In every unpaused tick the calls are: calls
  that run no solver pass, then exactly three rounds, each round the four passes density,
  constraint factor, constraint correction, correct position in that order over the
  current particles, then calls that run no solver pass. The solver passes of the tick,
  read off in order, are those twelve.
\<close>

theorem jacobi_three_rounds:
  assumes "m_init s" and "\<not> m_pause s"
  shows "MAX_NB_JACOBI_ITERS = 3
     \<and> (\<exists>before after.
           snd (update perMs now s) =
             before @ concat (replicate 3 (jacobiRound (m_currNbParticles s))) @ after
           \<and> filter isSolverPass (kernelsRun before) = []
           \<and> filter isSolverPass (kernelsRun after) = [])
     \<and> filter isSolverPass (kernelsRun (snd (update perMs now s))) =
         [KERNEL_DENSITY, KERNEL_CONSTRAINT_FACTOR, KERNEL_CONSTRAINT_CORRECTION, KERNEL_CORRECT_POS,
          KERNEL_DENSITY, KERNEL_CONSTRAINT_FACTOR, KERNEL_CONSTRAINT_CORRECTION, KERNEL_CORRECT_POS,
          KERNEL_DENSITY, KERNEL_CONSTRAINT_FACTOR, KERNEL_CONSTRAINT_CORRECTION, KERNEL_CORRECT_POS]"
proof -
  let ?n = "m_currNbParticles s"
  let ?ts = "clampTimeStep (rawTimeStep perMs now (m_time s))"
  let ?before = "[AcquireGLBuffers [p_pos, c_partDetector, u_cameraPos],
       RunKernel KERNEL_FILL_CELL_ID ?n,
       RadixSort_sort p_cellID [p_pos, p_vel],
       SetKernelArg KERNEL_PREDICT_POS 2 ?ts,
       RunKernel KERNEL_PREDICT_POS ?n,
       RunKernel KERNEL_FLUSH_START_END_CELL (m_nbCells s),
       RunKernel KERNEL_FILL_START_CELL ?n,
       RunKernel KERNEL_FILL_END_CELL ?n]
      @ (if m_simplifiedMode s then [RunKernel KERNEL_ADJUST_END_CELL (m_nbCells s)] else [])"
  let ?after = "[SetKernelArg KERNEL_UPDATE_VEL 1 ?ts, RunKernel KERNEL_UPDATE_VEL ?n]
      @ boundaryCalls (m_boundary s) ?ts ?n
      @ [RunKernel KERNEL_FLUSH_GRID_DETECTOR (m_nbCells s),
         RunKernel KERNEL_FILL_GRID_DETECTOR ?n,
         RunKernel KERNEL_FILL_CAMERA_DIST ?n,
         RadixSort_sort p_cameraDist [p_pos, p_vel],
         ReleaseGLBuffers [p_pos, c_partDetector, u_cameraPos]]"
  have 3: "MAX_NB_JACOBI_ITERS = 3"
    by (simp add: MAX_NB_JACOBI_ITERS_def)
  have "snd (update perMs now s) = ?before @ concat (replicate 3 (jacobiRound ?n)) @ ?after"
    using assms by (simp add: update_unpaused jacobiLoop_rounds)
  moreover have "filter isSolverPass (kernelsRun ?before) = []"
    by simp
  moreover have "filter isSolverPass (kernelsRun ?after) = []"
    by (simp add: kernelsRun_append kernelsRun_boundaryCalls split: Boundary.split)
  ultimately have rounds: "\<exists>before after.
           snd (update perMs now s) =
             before @ concat (replicate 3 (jacobiRound (m_currNbParticles s))) @ after
           \<and> filter isSolverPass (kernelsRun before) = []
           \<and> filter isSolverPass (kernelsRun after) = []"
    by blast
  have "filter isSolverPass (kernelsRun (snd (update perMs now s))) =
         [KERNEL_DENSITY, KERNEL_CONSTRAINT_FACTOR, KERNEL_CONSTRAINT_CORRECTION, KERNEL_CORRECT_POS,
          KERNEL_DENSITY, KERNEL_CONSTRAINT_FACTOR, KERNEL_CONSTRAINT_CORRECTION, KERNEL_CORRECT_POS,
          KERNEL_DENSITY, KERNEL_CONSTRAINT_FACTOR, KERNEL_CONSTRAINT_CORRECTION, KERNEL_CORRECT_POS]"
    using assms by (simp add: kernelsRun_update_unpaused split: Boundary.split)
  with 3 rounds show ?thesis by blast
qed

text \<open>
  C3 on the two particles.
\<close>

theorem jacobi_three_rounds_witness:
  "m_init pair \<and> \<not> m_pause pair \<and> MAX_NB_JACOBI_ITERS = 3 \<and>
   filter isSolverPass (kernelsRun (snd (update 1000000 16000000 pair))) =
     [KERNEL_DENSITY, KERNEL_CONSTRAINT_FACTOR, KERNEL_CONSTRAINT_CORRECTION, KERNEL_CORRECT_POS,
      KERNEL_DENSITY, KERNEL_CONSTRAINT_FACTOR, KERNEL_CONSTRAINT_CORRECTION, KERNEL_CORRECT_POS,
      KERNEL_DENSITY, KERNEL_CONSTRAINT_FACTOR, KERNEL_CONSTRAINT_CORRECTION, KERNEL_CORRECT_POS] \<and>
   (\<exists>before after.
           snd (update 1000000 16000000 pair) =
             before @ concat (replicate 3 (jacobiRound 2)) @ after
           \<and> filter isSolverPass (kernelsRun before) = []
           \<and> filter isSolverPass (kernelsRun after) = [])"
proof -
  have i: "m_init pair" and p: "\<not> m_pause pair" and n: "m_currNbParticles pair = 2"
    by (simp_all add: pair_eq)
  show ?thesis
    using i p jacobi_three_rounds [OF i p, of 1000000 16000000] unfolding n by blast
qed

subsection \<open>The cap on a cell\<close>

text \<open>
  C4, as amended. In an unpaused tick the adjust kernel is dispatched (over the cells) if
  and only if \<open>m_simplifiedMode\<close> is set. The cap is \<open>m_maxNbPartsInCell\<close>, compiled as
  \<open>NUM_MAX_PARTS_IN_CELL\<close>. After the adjustment every cell has the start it had and an
  end at most the one it had, its length is at most the cap, a cell within the cap is as
  before, and the table has its length: nothing is rejected.
\<close>

theorem adjust_gated_by_simplified_mode:
  assumes "m_init s" and "\<not> m_pause s"
  shows "(RunKernel KERNEL_ADJUST_END_CELL (m_nbCells s) \<in> set (snd (update perMs now s))) = m_simplifiedMode s
     \<and> (KERNEL_ADJUST_END_CELL \<in> set (kernelsRun (snd (update perMs now s)))) = m_simplifiedMode s
     \<and> NUM_MAX_PARTS_IN_CELL (clBuildOptions bits s) = m_maxNbPartsInCell s
     \<and> length (adjustEndCell (m_maxNbPartsInCell s) table) = length table
     \<and> (\<forall>c < length table.
           snd (adjustEndCell (m_maxNbPartsInCell s) table ! c)
             - fst (adjustEndCell (m_maxNbPartsInCell s) table ! c) \<le> m_maxNbPartsInCell s
           \<and> fst (adjustEndCell (m_maxNbPartsInCell s) table ! c) = fst (table ! c)
           \<and> snd (adjustEndCell (m_maxNbPartsInCell s) table ! c) \<le> snd (table ! c)
           \<and> (snd (table ! c) - fst (table ! c) \<le> m_maxNbPartsInCell s \<longrightarrow>
                adjustEndCell (m_maxNbPartsInCell s) table ! c = table ! c))"
proof -
  have "(RunKernel KERNEL_ADJUST_END_CELL (m_nbCells s) \<in> set (snd (update perMs now s))) = m_simplifiedMode s"
    using assms by (simp add: update_unpaused jacobiLoop_0 boundaryCalls_def split: Boundary.split)
  moreover have "(KERNEL_ADJUST_END_CELL \<in> set (kernelsRun (snd (update perMs now s)))) = m_simplifiedMode s"
    using assms by (simp add: kernelsRun_update_unpaused split: Boundary.split)
  moreover have "NUM_MAX_PARTS_IN_CELL (clBuildOptions bits s) = m_maxNbPartsInCell s"
    by (simp add: clBuildOptions_def)
  moreover have "length (adjustEndCell (m_maxNbPartsInCell s) table) = length table"
    by (simp add: adjustEndCell_def)
  moreover have "\<forall>c < length table.
           snd (adjustEndCell (m_maxNbPartsInCell s) table ! c)
             - fst (adjustEndCell (m_maxNbPartsInCell s) table ! c) \<le> m_maxNbPartsInCell s
           \<and> fst (adjustEndCell (m_maxNbPartsInCell s) table ! c) = fst (table ! c)
           \<and> snd (adjustEndCell (m_maxNbPartsInCell s) table ! c) \<le> snd (table ! c)
           \<and> (snd (table ! c) - fst (table ! c) \<le> m_maxNbPartsInCell s \<longrightarrow>
                adjustEndCell (m_maxNbPartsInCell s) table ! c = table ! c)"
    by (auto simp: adjustEndCell_nth)
  ultimately show ?thesis by blast
qed

text \<open>
  C4, as amended, on the two particles and a table with an overfull cell.
\<close>

theorem adjust_gated_by_simplified_mode_witness:
  "m_init pair \<and> \<not> m_pause pair \<and> m_simplifiedMode pair
   \<and> RunKernel KERNEL_ADJUST_END_CELL (m_nbCells pair) \<in> set (snd (update 1000000 16000000 pair))
   \<and> m_maxNbPartsInCell pair = 1000
   \<and> adjustEndCell (m_maxNbPartsInCell pair) [(0, 1500), (1500, 1502)] = [(0, 1000), (1500, 1502)]
   \<and> snd (adjustEndCell (m_maxNbPartsInCell pair) [(0, 1500), (1500, 1502)] ! 0)
        - fst (adjustEndCell (m_maxNbPartsInCell pair) [(0, 1500), (1500, 1502)] ! 0) \<le> m_maxNbPartsInCell pair"
proof -
  have 1: "m_init pair" and 2: "\<not> m_pause pair" and 3: "m_simplifiedMode pair"
    and 4: "m_maxNbPartsInCell pair = 1000"
    by (simp_all add: pair_eq)
  have 5: "adjustEndCell (m_maxNbPartsInCell pair) [(0, 1500), (1500, 1502)] = [(0, 1000), (1500, 1502)]"
    by (simp add: 4 adjustEndCell_def)
  have 6: "(0::nat) < length [(0::nat, 1500::nat), (1500, 1502)]"
    by simp
  from adjust_gated_by_simplified_mode
         [OF 1 2, where perMs = 1000000 and now = 16000000 and table = "[(0, 1500), (1500, 1502)]"] 3 6
  have "RunKernel KERNEL_ADJUST_END_CELL (m_nbCells pair) \<in> set (snd (update 1000000 16000000 pair))"
    and "snd (adjustEndCell (m_maxNbPartsInCell pair) [(0, 1500), (1500, 1502)] ! 0)
        - fst (adjustEndCell (m_maxNbPartsInCell pair) [(0, 1500), (1500, 1502)] ! 0) \<le> m_maxNbPartsInCell pair"
    by blast+
  with 1 2 3 4 5 show ?thesis by blast
qed

text \<open>
  C4 as stated fails: on a paused tick the simplified mode is set and the adjust kernel
  does not run.
\<close>

theorem adjust_skipped_on_paused_tick:
  "m_init pausedPair \<and> m_simplifiedMode pausedPair
   \<and> KERNEL_ADJUST_END_CELL \<notin> set (kernelsRun (snd (update 1000000 16000000 pausedPair)))"
  by (simp add: kernelsRun_update_paused pausedPair_eq)

subsection \<open>A paused tick\<close>

text \<open>
  C5. On a paused tick \<^verbatim>\<open>update\<close> leaves the members and issues, between acquiring and
  releasing the buffers, the camera distance kernel and the sort by \<^verbatim>\<open>p_cameraDist\<close> and
  nothing else: no other kernel, no sort by cell. Whatever the kernels compute, the scalar
  arguments and every buffer other than \<^verbatim>\<open>p_cameraDist\<close>, the camera position and the two
  payloads of that sort are as before. And every tick, paused or not, ends with the
  camera distance kernel, the sort by \<^verbatim>\<open>p_cameraDist\<close> and the release.
\<close>

theorem paused_tick_runs_camera_sort_only:
  assumes "m_init s"
  shows "(m_pause s \<longrightarrow>
            update perMs now s =
              (s, [AcquireGLBuffers [p_pos, c_partDetector, u_cameraPos],
                   RunKernel KERNEL_FILL_CAMERA_DIST (m_currNbParticles s),
                   RadixSort_sort p_cameraDist [p_pos, p_vel],
                   ReleaseGLBuffers [p_pos, c_partDetector, u_cameraPos]])
            \<and> kernelsRun (snd (update perMs now s)) = [KERNEL_FILL_CAMERA_DIST]
            \<and> sortsRun (snd (update perMs now s)) = [(p_cameraDist, [p_pos, p_vel])]
            \<and> karg (execAll sem keyOf (snd (update perMs now s)) d) = karg d
            \<and> (\<forall>b. b \<noteq> p_pos \<and> b \<noteq> p_vel \<and> b \<noteq> p_cameraDist \<and> b \<noteq> u_cameraPos \<longrightarrow>
                  buf (execAll sem keyOf (snd (update perMs now s)) d) b = buf d b))
     \<and> (\<exists>before.
            snd (update perMs now s) =
              before @ [RunKernel KERNEL_FILL_CAMERA_DIST (m_currNbParticles s),
                        RadixSort_sort p_cameraDist [p_pos, p_vel],
                        ReleaseGLBuffers [p_pos, c_partDetector, u_cameraPos]])
     \<and> last (sortsRun (snd (update perMs now s))) = (p_cameraDist, [p_pos, p_vel])"
proof -
  have paused: "update perMs now s =
              (s, [AcquireGLBuffers [p_pos, c_partDetector, u_cameraPos],
                   RunKernel KERNEL_FILL_CAMERA_DIST (m_currNbParticles s),
                   RadixSort_sort p_cameraDist [p_pos, p_vel],
                   ReleaseGLBuffers [p_pos, c_partDetector, u_cameraPos]])
            \<and> kernelsRun (snd (update perMs now s)) = [KERNEL_FILL_CAMERA_DIST]
            \<and> sortsRun (snd (update perMs now s)) = [(p_cameraDist, [p_pos, p_vel])]
            \<and> karg (execAll sem keyOf (snd (update perMs now s)) d) = karg d
            \<and> (\<forall>b. b \<noteq> p_pos \<and> b \<noteq> p_vel \<and> b \<noteq> p_cameraDist \<and> b \<noteq> u_cameraPos \<longrightarrow>
                  buf (execAll sem keyOf (snd (update perMs now s)) d) b = buf d b)"
    if "m_pause s"
    using assms that
    by (simp add: update_paused execAll_def buf_radixSort_other buf_runKernel_other boundBuffers_def)
  have ending: "\<exists>before.
            snd (update perMs now s) =
              before @ [RunKernel KERNEL_FILL_CAMERA_DIST (m_currNbParticles s),
                        RadixSort_sort p_cameraDist [p_pos, p_vel],
                        ReleaseGLBuffers [p_pos, c_partDetector, u_cameraPos]]"
  proof (cases "m_pause s")
    case True
    then show ?thesis using assms by (simp add: update_paused)
  next
    case False
    then show ?thesis using assms
      by (simp add: update_unpaused)
  qed
  have "last (sortsRun (snd (update perMs now s))) = (p_cameraDist, [p_pos, p_vel])"
    using assms by (simp add: sortsRun_update)
  with paused ending show ?thesis by blast
qed

text \<open>
  C5 on the two particles, paused and not.
\<close>

theorem paused_tick_runs_camera_sort_only_witness:
  "m_init pausedPair \<and> m_pause pausedPair
   \<and> update 1000000 16000000 pausedPair =
       (pausedPair, [AcquireGLBuffers [p_pos, c_partDetector, u_cameraPos],
                     RunKernel KERNEL_FILL_CAMERA_DIST 2,
                     RadixSort_sort p_cameraDist [p_pos, p_vel],
                     ReleaseGLBuffers [p_pos, c_partDetector, u_cameraPos]])
   \<and> buf (execAll (\<lambda>k a n bufs. bufs) lineKey (snd (update 1000000 16000000 pausedPair)) pairDevice) p_predPos
       = buf pairDevice p_predPos
   \<and> last (sortsRun (snd (update 1000000 16000000 pair))) = (p_cameraDist, [p_pos, p_vel])"
proof -
  have 1: "m_init pausedPair" and 2: "m_pause pausedPair" and 3: "m_currNbParticles pausedPair = 2"
    by (simp_all add: pausedPair_eq)
  have 4: "m_init pair"
    by (simp add: pair_eq)
  from paused_tick_runs_camera_sort_only [OF 1, of 1000000 16000000 "\<lambda>k a n bufs. bufs" lineKey pairDevice] 2
  have a: "update 1000000 16000000 pausedPair =
       (pausedPair, [AcquireGLBuffers [p_pos, c_partDetector, u_cameraPos],
                     RunKernel KERNEL_FILL_CAMERA_DIST (m_currNbParticles pausedPair),
                     RadixSort_sort p_cameraDist [p_pos, p_vel],
                     ReleaseGLBuffers [p_pos, c_partDetector, u_cameraPos]])"
    and b: "\<forall>b. b \<noteq> p_pos \<and> b \<noteq> p_vel \<and> b \<noteq> p_cameraDist \<and> b \<noteq> u_cameraPos \<longrightarrow>
              buf (execAll (\<lambda>k a n bufs. bufs) lineKey (snd (update 1000000 16000000 pausedPair)) pairDevice) b
                = buf pairDevice b"
    by blast+
  have "update 1000000 16000000 pausedPair =
       (pausedPair, [AcquireGLBuffers [p_pos, c_partDetector, u_cameraPos],
                     RunKernel KERNEL_FILL_CAMERA_DIST 2,
                     RadixSort_sort p_cameraDist [p_pos, p_vel],
                     ReleaseGLBuffers [p_pos, c_partDetector, u_cameraPos]])"
    using a by (simp only: 3)
  moreover have "buf (execAll (\<lambda>k a n bufs. bufs) lineKey (snd (update 1000000 16000000 pausedPair)) pairDevice) p_predPos
       = buf pairDevice p_predPos"
    using b by blast
  moreover from paused_tick_runs_camera_sort_only [OF 4, of 1000000 16000000]
  have "last (sortsRun (snd (update 1000000 16000000 pair))) = (p_cameraDist, [p_pos, p_vel])"
    by blast
  ultimately show ?thesis using 1 2 by blast
qed

subsection \<open>Position and velocity under a sort\<close>

text \<open>
  C6. \<^verbatim>\<open>reset\<close> runs no sort. Every sort \<^verbatim>\<open>update\<close> runs, the one keyed by \<^verbatim>\<open>p_cellID\<close>
  and the one keyed by \<^verbatim>\<open>p_cameraDist\<close>, is called with the payloads \<^verbatim>\<open>p_pos\<close> and
  \<^verbatim>\<open>p_vel\<close>, and the sort gives both the one permutation of the keys: the pairs
  (position, velocity) after the sort are the pairs before it, reordered.
\<close>

theorem sorts_move_position_and_velocity_together:
  assumes run: "(key, payloads) \<in> set (sortsRun (snd (update perMs now s)))"
    and pos: "length (buf d p_pos) = length (buf d key)"
    and vel: "length (buf d p_vel) = length (buf d key)"
  shows "sortsRun (snd (reset now' s')) = [] \<and>
         payloads = [p_pos, p_vel] \<and> (key = p_cellID \<or> key = p_cameraDist) \<and>
         (let perm = sortPermutation (map keyOf (buf d key));
              d' = exec sem keyOf (RadixSort_sort key payloads) d
          in mset perm = mset [0..<length (buf d key)]
             \<and> buf d' p_pos = permuted perm (buf d p_pos)
             \<and> buf d' p_vel = permuted perm (buf d p_vel)
             \<and> zip (buf d' p_pos) (buf d' p_vel) = permuted perm (zip (buf d p_pos) (buf d p_vel))
             \<and> mset (zip (buf d' p_pos) (buf d' p_vel)) = mset (zip (buf d p_pos) (buf d p_vel)))"
proof -
  have init: "m_init s"
    using run by (cases "m_init s") (simp_all add: update_uninit)
  have kp: "payloads = [p_pos, p_vel]" and k: "key = p_cellID \<or> key = p_cameraDist"
    using run by (auto simp: sortsRun_update [OF init] split: if_splits)
  let ?perm = "sortPermutation (map keyOf (buf d key))"
  let ?d = "radixSort keyOf key payloads d"
  have m: "mset ?perm = mset [0..<length (buf d key)]"
    by (simp add: mset_sortPermutation)
  have p: "buf ?d p_pos = permuted ?perm (buf d p_pos)"
    and v: "buf ?d p_vel = permuted ?perm (buf d p_vel)"
    by (simp_all add: kp radixSort_def Let_def)
  have "\<forall>i\<in>set ?perm. i < length (buf d p_pos) \<and> i < length (buf d p_vel)"
    by (simp add: set_sortPermutation pos vel)
  then have z: "zip (buf ?d p_pos) (buf ?d p_vel) = permuted ?perm (zip (buf d p_pos) (buf d p_vel))"
    by (simp add: p v zip_permuted)
  have "mset ?perm = mset [0..<length (zip (buf d p_pos) (buf d p_vel))]"
    by (simp add: m pos vel)
  then have "mset (permuted ?perm (zip (buf d p_pos) (buf d p_vel))) = mset (zip (buf d p_pos) (buf d p_vel))"
    by (rule mset_permuted)
  with kp k m p v z show ?thesis
    by (simp add: Let_def sortsRun_reset)
qed

text \<open>
  C6 on the three shuffled particles, sorted by cell.
\<close>

theorem sorts_move_position_and_velocity_together_witness:
  "(p_cellID, [p_pos, p_vel]) \<in> set (sortsRun (snd (update 1000000 16000000 pair)))
   \<and> length (buf shuffledDevice p_pos) = length (buf shuffledDevice p_cellID)
   \<and> length (buf shuffledDevice p_vel) = length (buf shuffledDevice p_cellID)
   \<and> sortPermutation (map lineKey (buf shuffledDevice p_cellID)) = [1, 2, 0]
   \<and> buf (exec (\<lambda>k a n bufs. bufs) lineKey (RadixSort_sort p_cellID [p_pos, p_vel]) shuffledDevice) p_pos
       = [0, 10, 20]
   \<and> buf (exec (\<lambda>k a n bufs. bufs) lineKey (RadixSort_sort p_cellID [p_pos, p_vel]) shuffledDevice) p_vel
       = [0, - 1, - 2]
   \<and> mset (zip (buf (exec (\<lambda>k a n bufs. bufs) lineKey (RadixSort_sort p_cellID [p_pos, p_vel]) shuffledDevice) p_pos)
               (buf (exec (\<lambda>k a n bufs. bufs) lineKey (RadixSort_sort p_cellID [p_pos, p_vel]) shuffledDevice) p_vel))
       = mset (zip (buf shuffledDevice p_pos) (buf shuffledDevice p_vel))"
proof -
  have 1: "(p_cellID, [p_pos, p_vel]) \<in> set (sortsRun (snd (update 1000000 16000000 pair)))"
    by (simp add: sortsRun_update pair_eq)
  have 2: "length (buf shuffledDevice p_pos) = length (buf shuffledDevice p_cellID)"
    and 3: "length (buf shuffledDevice p_vel) = length (buf shuffledDevice p_cellID)"
    by (simp_all add: shuffledDevice_def)
  have 4: "sortPermutation (map lineKey (buf shuffledDevice p_cellID)) = [1, 2, 0]"
    by (simp add: shuffledDevice_def sortPermutation_def lineKey_def)
  have 5: "buf (exec (\<lambda>k a n bufs. bufs) lineKey (RadixSort_sort p_cellID [p_pos, p_vel]) shuffledDevice) p_pos
       = [0, 10, 20]"
    by (simp add: radixSort_def Let_def 4 permuted_def) (simp add: shuffledDevice_def)
  have 6: "buf (exec (\<lambda>k a n bufs. bufs) lineKey (RadixSort_sort p_cellID [p_pos, p_vel]) shuffledDevice) p_vel
       = [0, - 1, - 2]"
    by (simp add: radixSort_def Let_def 4 permuted_def) (simp add: shuffledDevice_def)
  from sorts_move_position_and_velocity_together
         [OF 1 2 3, where keyOf = lineKey and sem = "\<lambda>k a n bufs. bufs"]
  have 7: "mset (zip (buf (exec (\<lambda>k a n bufs. bufs) lineKey (RadixSort_sort p_cellID [p_pos, p_vel]) shuffledDevice) p_pos)
               (buf (exec (\<lambda>k a n bufs. bufs) lineKey (RadixSort_sort p_cellID [p_pos, p_vel]) shuffledDevice) p_vel))
       = mset (zip (buf shuffledDevice p_pos) (buf shuffledDevice p_vel))"
    unfolding Let_def by blast
  from 1 2 3 4 5 6 7 show ?thesis by blast
qed

subsection \<open>A boundary mode the switch does not name\<close>




subsection \<open>The occupancy grid\<close>

text \<open>
  C8, as amended. On an unpaused tick the occupancy grid is flushed (over the cells) and
  refilled from \<^verbatim>\<open>p_pos\<close> (over the particles) once, as the last step before the camera
  distance kernel. On a paused tick neither kernel runs and \<^verbatim>\<open>c_partDetector\<close> is as before.
\<close>

theorem grid_detector_refreshed_when_unpaused:
  assumes "m_init s"
  shows "(\<not> m_pause s \<longrightarrow>
            filter isGridDetector (kernelsRun (snd (update perMs now s)))
              = [KERNEL_FLUSH_GRID_DETECTOR, KERNEL_FILL_GRID_DETECTOR]
            \<and> (\<exists>before.
                  snd (update perMs now s) =
                    before @ [RunKernel KERNEL_FLUSH_GRID_DETECTOR (m_nbCells s),
                              RunKernel KERNEL_FILL_GRID_DETECTOR (m_currNbParticles s),
                              RunKernel KERNEL_FILL_CAMERA_DIST (m_currNbParticles s),
                              RadixSort_sort p_cameraDist [p_pos, p_vel],
                              ReleaseGLBuffers [p_pos, c_partDetector, u_cameraPos]]))
     \<and> (m_pause s \<longrightarrow>
            filter isGridDetector (kernelsRun (snd (update perMs now s))) = []
            \<and> buf (execAll sem keyOf (snd (update perMs now s)) d) c_partDetector = buf d c_partDetector)
     \<and> kernelArgs KERNEL_FILL_GRID_DETECTOR = [Some p_pos, Some c_partDetector]"
proof -
  have unpaused: "filter isGridDetector (kernelsRun (snd (update perMs now s)))
              = [KERNEL_FLUSH_GRID_DETECTOR, KERNEL_FILL_GRID_DETECTOR]
            \<and> (\<exists>before.
                  snd (update perMs now s) =
                    before @ [RunKernel KERNEL_FLUSH_GRID_DETECTOR (m_nbCells s),
                              RunKernel KERNEL_FILL_GRID_DETECTOR (m_currNbParticles s),
                              RunKernel KERNEL_FILL_CAMERA_DIST (m_currNbParticles s),
                              RadixSort_sort p_cameraDist [p_pos, p_vel],
                              ReleaseGLBuffers [p_pos, c_partDetector, u_cameraPos]])"
    if "\<not> m_pause s"
  proof
    show "filter isGridDetector (kernelsRun (snd (update perMs now s)))
              = [KERNEL_FLUSH_GRID_DETECTOR, KERNEL_FILL_GRID_DETECTOR]"
      using assms that by (simp add: kernelsRun_update_unpaused split: Boundary.split)
    show "\<exists>before.
                  snd (update perMs now s) =
                    before @ [RunKernel KERNEL_FLUSH_GRID_DETECTOR (m_nbCells s),
                              RunKernel KERNEL_FILL_GRID_DETECTOR (m_currNbParticles s),
                              RunKernel KERNEL_FILL_CAMERA_DIST (m_currNbParticles s),
                              RadixSort_sort p_cameraDist [p_pos, p_vel],
                              ReleaseGLBuffers [p_pos, c_partDetector, u_cameraPos]]"
      using assms that by (simp add: update_unpaused)
  qed
  have paused: "filter isGridDetector (kernelsRun (snd (update perMs now s))) = []
            \<and> buf (execAll sem keyOf (snd (update perMs now s)) d) c_partDetector = buf d c_partDetector"
    if "m_pause s"
    using assms that
    by (simp add: update_paused execAll_def buf_radixSort_other buf_runKernel_other boundBuffers_def)
  from unpaused paused show ?thesis by simp
qed

text \<open>
  C8, as amended, on the two particles, paused and not.
\<close>

theorem grid_detector_refreshed_when_unpaused_witness:
  "m_init pair \<and> \<not> m_pause pair \<and> m_init pausedPair \<and> m_pause pausedPair
   \<and> filter isGridDetector (kernelsRun (snd (update 1000000 16000000 pair)))
       = [KERNEL_FLUSH_GRID_DETECTOR, KERNEL_FILL_GRID_DETECTOR]
   \<and> filter isGridDetector (kernelsRun (snd (update 1000000 16000000 pausedPair))) = []"
proof -
  have 1: "m_init pair" and 2: "\<not> m_pause pair" and 3: "m_init pausedPair" and 4: "m_pause pausedPair"
    by (simp_all add: pair_eq pausedPair_eq)
  from grid_detector_refreshed_when_unpaused [OF 1, of 1000000 16000000] 2
  have "filter isGridDetector (kernelsRun (snd (update 1000000 16000000 pair)))
       = [KERNEL_FLUSH_GRID_DETECTOR, KERNEL_FILL_GRID_DETECTOR]"
    by blast
  moreover from grid_detector_refreshed_when_unpaused [OF 3, of 1000000 16000000] 4
  have "filter isGridDetector (kernelsRun (snd (update 1000000 16000000 pausedPair))) = []"
    by blast
  ultimately show ?thesis using 1 2 3 4 by blast
qed

text \<open>
  C8 as stated fails: on a paused tick the grid is neither flushed nor refilled.
\<close>

theorem grid_detector_stale_on_paused_tick:
  "m_init pausedPair \<and> m_pause pausedPair
   \<and> KERNEL_FLUSH_GRID_DETECTOR \<notin> set (kernelsRun (snd (update 1000000 16000000 pausedPair)))
   \<and> KERNEL_FILL_GRID_DETECTOR \<notin> set (kernelsRun (snd (update 1000000 16000000 pausedPair)))"
  by (simp add: kernelsRun_update_paused pausedPair_eq)

subsection \<open>Before initialisation\<close>

text \<open>
  C9. While \<open>m_init\<close> is not set, \<^verbatim>\<open>reset\<close> and \<^verbatim>\<open>update\<close> return at once: the members are
  as before, no call is issued, and so every buffer of the device is as before.
\<close>

theorem uninitialised_is_noop:
  "\<not> m_init s \<Longrightarrow>
     reset now s = (s, []) \<and> update perMs now s = (s, [])
     \<and> execAll sem keyOf (snd (reset now s)) d = d
     \<and> execAll sem keyOf (snd (update perMs now s)) d = d"
  by (simp add: reset_def update_def execAll_def)

text \<open>
  C9 on the scenario before its construction.
\<close>

theorem uninitialised_is_noop_witness:
  "\<not> m_init scenarioBase \<and>
     reset 7 scenarioBase = (scenarioBase, []) \<and> update 1000000 7 scenarioBase = (scenarioBase, [])
     \<and> execAll (\<lambda>k a n bufs. bufs) lineKey (snd (reset 7 scenarioBase)) pairDevice = pairDevice
     \<and> execAll (\<lambda>k a n bufs. bufs) lineKey (snd (update 1000000 7 scenarioBase)) pairDevice = pairDevice"
proof -
  have u: "\<not> m_init scenarioBase" by (simp add: scenarioBase_def)
  show ?thesis using u uninitialised_is_noop [OF u] by simp
qed

subsection \<open>The effect radius\<close>

text \<open>
  C10, as amended. \<^verbatim>\<open>createProgram\<close> compiles \<open>EFFECT_RADIUS_SQUARED\<close> as the quotient of
  \<open>boxSize * boxSize\<close> by \<open>gridRes * gridRes\<close> with the fraction dropped, as long as
  neither product overflows the type of the members and the quotient is below \<open>2 ^ 31\<close>;
  when the box size is less than the grid resolution, and the square of the resolution
  does not overflow, the constant is 0. The program is created with these options unless
  the divisor is zero.
\<close>

theorem effect_radius_squared_truncates:
  "(m_gridRes s \<noteq> 0 \<and> m_boxSize s * m_boxSize s < 2 ^ bits \<and> m_gridRes s * m_gridRes s < 2 ^ bits
      \<and> m_boxSize s * m_boxSize s div (m_gridRes s * m_gridRes s) < 2 ^ 31 \<longrightarrow>
        EFFECT_RADIUS_SQUARED (clBuildOptions bits s) =
          Some \<lfloor>real (m_boxSize s * m_boxSize s) / real (m_gridRes s * m_gridRes s)\<rfloor>)
   \<and> (m_boxSize s < m_gridRes s \<and> m_gridRes s * m_gridRes s < 2 ^ bits \<longrightarrow>
        EFFECT_RADIUS_SQUARED (clBuildOptions bits s) = Some 0)
   \<and> (m_gridRes s \<noteq> 0 \<and> m_gridRes s * m_gridRes s < 2 ^ bits \<longrightarrow>
        createProgram bits s = Some [CreateProgram (clBuildOptions bits s)])"
proof -
  let ?b = "m_boxSize s" and ?g = "m_gridRes s"
  have floor: "\<lfloor>real (?b * ?b) / real (?g * ?g)\<rfloor> = int (?b * ?b div (?g * ?g))"
    by (rule floor_divide_of_nat_eq)
  have 1: "EFFECT_RADIUS_SQUARED (clBuildOptions bits s) = Some \<lfloor>real (?b * ?b) / real (?g * ?g)\<rfloor>"
    if "?g \<noteq> 0" and "?b * ?b < 2 ^ bits" and "?g * ?g < 2 ^ bits"
      and "?b * ?b div (?g * ?g) < 2 ^ 31"
    unfolding floor using that
    by (simp add: clBuildOptions_def effectRadiusSquared_def castToInt_small)
  have 2: "EFFECT_RADIUS_SQUARED (clBuildOptions bits s) = Some 0"
    if "?b < ?g" and "?g * ?g < 2 ^ bits"
  proof -
    have lt: "?b * ?b < ?g * ?g"
      using that(1) by (simp add: mult_strict_mono)
    then have "?b * ?b < 2 ^ bits"
      using that(2) by simp
    then show ?thesis
      using that lt by (simp add: clBuildOptions_def effectRadiusSquared_def castToInt_def)
  qed
  have 3: "createProgram bits s = Some [CreateProgram (clBuildOptions bits s)]"
    if "?g \<noteq> 0" and "?g * ?g < 2 ^ bits"
    using that by (simp add: createProgram_Some)
  from 1 2 3 show ?thesis by blast
qed

text \<open>
  C10, as amended, in the scenario: a box of 10 on a grid of 16 gives the constant 0.
\<close>

theorem effect_radius_squared_truncates_witness:
  "m_gridRes scenario \<noteq> 0 \<and> m_boxSize scenario < m_gridRes scenario
   \<and> m_boxSize scenario * m_boxSize scenario < 2 ^ 64
   \<and> m_gridRes scenario * m_gridRes scenario < 2 ^ 64
   \<and> m_boxSize scenario * m_boxSize scenario div (m_gridRes scenario * m_gridRes scenario) < 2 ^ 31
   \<and> EFFECT_RADIUS_SQUARED (clBuildOptions 64 scenario) = Some 0
   \<and> \<lfloor>real (m_boxSize scenario * m_boxSize scenario) / real (m_gridRes scenario * m_gridRes scenario)\<rfloor> = 0
   \<and> createProgram 64 scenario = Some [CreateProgram (clBuildOptions 64 scenario)]"
proof -
  have 1: "m_gridRes scenario \<noteq> 0" and 2: "m_boxSize scenario < m_gridRes scenario"
    and 3: "m_boxSize scenario * m_boxSize scenario < 2 ^ 64"
    and 4: "m_gridRes scenario * m_gridRes scenario < 2 ^ 64"
    and 5: "m_boxSize scenario * m_boxSize scenario div (m_gridRes scenario * m_gridRes scenario) < 2 ^ 31"
    by (simp_all add: scenario_eq)
  from effect_radius_squared_truncates [of scenario 64] 1 2 3 4 5
  have "EFFECT_RADIUS_SQUARED (clBuildOptions 64 scenario) = Some 0"
    and "EFFECT_RADIUS_SQUARED (clBuildOptions 64 scenario) =
          Some \<lfloor>real (m_boxSize scenario * m_boxSize scenario) / real (m_gridRes scenario * m_gridRes scenario)\<rfloor>"
    and "createProgram 64 scenario = Some [CreateProgram (clBuildOptions 64 scenario)]"
    by blast+
  with 1 2 3 4 5 show ?thesis by simp
qed

text \<open>
  C10 as stated fails: for a box of size 46341 on a grid of resolution 1 the quotient is
  2147488281, and the cast to \<^verbatim>\<open>int\<close> makes the constant -2147479015, with members of 64
  bits as with members of 32.
\<close>

theorem effect_radius_squared_wraps:
  "m_boxSize wideBox = 46341 \<and> m_gridRes wideBox = 1
   \<and> \<lfloor>real (m_boxSize wideBox * m_boxSize wideBox) / real (m_gridRes wideBox * m_gridRes wideBox)\<rfloor>
       = 2147488281
   \<and> EFFECT_RADIUS_SQUARED (clBuildOptions 64 wideBox) = Some (- 2147479015)
   \<and> EFFECT_RADIUS_SQUARED (clBuildOptions 32 wideBox) = Some (- 2147479015)"
  by (simp add: wideBox_def scenario_eq clBuildOptions_def effectRadiusSquared_def castToInt_def)

end
